theory Spec2Isabelle
  imports Complex_Main "HOL-Library.Sublist"
begin

section \<open>Python values\<close>

text \<open>
  A Python \<open>str\<close> is a sequence of Unicode code points, so a string is a list of
  code points here (the bullet U+2022 and the degree sign U+00B0 occur in the source).
  \<open>pystr\<close> reads an ASCII literal.
\<close>

type_synonym pystr = "nat list"

definition pystr :: "string \<Rightarrow> pystr" where
  "pystr cs = map of_char cs"

definition NL :: nat where
  "NL = 10"

text \<open>\<open>sub in s\<close> is \<^const>\<open>sublist\<close>, \<open>s.startswith(p)\<close> is \<^const>\<open>prefix\<close>.\<close>

text \<open>\<open>s.split(c)\<close> for a one-character separator: never empty, \<open>''.split(c) == ['']\<close>.\<close>

fun split_on :: "'a \<Rightarrow> 'a list \<Rightarrow> 'a list list" where
  "split_on c [] = [[]]"
| "split_on c (x # xs) =
     (if x = c then [] # split_on c xs
      else case split_on c xs of
             [] \<Rightarrow> [[x]]
           | l # ls \<Rightarrow> (x # l) # ls)"

text \<open>\<open>s.split(c, 1)\<close>: one part when \<open>c\<close> does not occur, else the two parts around its
  first occurrence.\<close>

definition split_once :: "'a \<Rightarrow> 'a list \<Rightarrow> 'a list list" where
  "split_once c s =
     (case dropWhile (\<lambda>x. x \<noteq> c) s of
        [] \<Rightarrow> [s]
      | _ # rest \<Rightarrow> [takeWhile (\<lambda>x. x \<noteq> c) s, rest])"

datatype pyerror = IndexError | ZeroDivisionError | OverflowError

text \<open>\<open>xs[i]\<close> for a literal index \<open>i \<ge> 0\<close>; out of range raises IndexError.\<close>

definition item :: "'a list \<Rightarrow> nat \<Rightarrow> pyerror + 'a" where
  "item xs i = (if i < length xs then Inr (xs ! i) else Inl IndexError)"

text \<open>\<open>str.isspace\<close> on one code point (the whitespace table of CPython).\<close>

definition isspace :: "nat \<Rightarrow> bool" where
  "isspace c \<longleftrightarrow>
     (9 \<le> c \<and> c \<le> 13) \<or> (28 \<le> c \<and> c \<le> 32) \<or> c = 133 \<or> c = 160 \<or> c = 5760 \<or>
     (8192 \<le> c \<and> c \<le> 8202) \<or> c = 8232 \<or> c = 8233 \<or> c = 8239 \<or> c = 8287 \<or> c = 12288"

text \<open>\<open>s.strip(chars)\<close> removes leading and trailing code points of the given set;
  \<open>s.strip()\<close> removes whitespace.\<close>

definition strip_by :: "('a \<Rightarrow> bool) \<Rightarrow> 'a list \<Rightarrow> 'a list" where
  "strip_by p s = rev (dropWhile p (rev (dropWhile p s)))"

definition strip :: "pystr \<Rightarrow> pystr" where
  "strip s = strip_by isspace s"

definition strip_chars :: "pystr \<Rightarrow> pystr \<Rightarrow> pystr" where
  "strip_chars chars s = strip_by (\<lambda>c. c \<in> set chars) s"

text \<open>\<open>s.find(sub, start)\<close>: the lowest index at or after \<open>start\<close> where \<open>sub\<close>
  occurs, or \<open>-1\<close>; a negative \<open>start\<close> counts from the end.\<close>

fun find_at :: "'a list \<Rightarrow> 'a list \<Rightarrow> nat \<Rightarrow> int" where
  "find_at sub [] i = (if sub = [] then int i else - 1)"
| "find_at sub (x # xs) i =
     (if prefix sub (x # xs) then int i else find_at sub xs (Suc i))"

definition find :: "'a list \<Rightarrow> 'a list \<Rightarrow> int \<Rightarrow> int" where
  "find s sub start =
     (let st = (if start < 0 then nat (max 0 (int (length s) + start)) else nat start)
      in if length s < st then - 1 else find_at sub (drop st s) st)"

text \<open>\<open>s[a:b]\<close> with Python's treatment of negative and out-of-range bounds.\<close>

definition slice_index :: "nat \<Rightarrow> int \<Rightarrow> nat" where
  "slice_index n i = (if i < 0 then nat (max 0 (int n + i)) else min n (nat i))"

definition slice :: "'a list \<Rightarrow> int \<Rightarrow> int \<Rightarrow> 'a list" where
  "slice s a b =
     (let lo = slice_index (length s) a; hi = slice_index (length s) b
      in take (hi - lo) (drop lo s))"

text \<open>\<open>sep.join(parts)\<close>.\<close>

fun join :: "'a list \<Rightarrow> 'a list list \<Rightarrow> 'a list" where
  "join sep [] = []"
| "join sep [p] = p"
| "join sep (p # q # ps) = p @ sep @ join sep (q # ps)"

text \<open>\<open>str(n)\<close> for an \<open>int\<close>.\<close>

fun digits :: "nat \<Rightarrow> pystr" where
  "digits n = (if n < 10 then [48 + n] else digits (n div 10) @ [48 + n mod 10])"

declare digits.simps [simp del]

definition str_int :: "int \<Rightarrow> pystr" where
  "str_int i = (if i < 0 then 45 # digits (nat (- i)) else digits (nat i))"

text \<open>
  A Python \<open>float\<close> is an IEEE double: a rational (\<open>Finite 0\<close> is \<open>+0.0\<close>), the
  negative zero, an infinity or a NaN. Every double is a rational, so the literals of the
  source are written exactly: \<open>0.8 = 3602879701896397 / 2^52\<close>,
  \<open>0.7 = 3152519739159347 / 2^52\<close>, \<open>0.5 = 1 / 2\<close>.
\<close>

datatype pyfloat = Finite rat | NegZero | PosInf | NegInf | NaN

definition float_0_8 :: pyfloat where
  "float_0_8 = Finite (3602879701896397 / 4503599627370496)"

definition float_0_7 :: pyfloat where
  "float_0_7 = Finite (3152519739159347 / 4503599627370496)"

definition float_0_5 :: pyfloat where
  "float_0_5 = Finite (1 / 2)"

definition is_zero :: "pyfloat \<Rightarrow> bool" where
  "is_zero x \<longleftrightarrow> x = Finite 0 \<or> x = NegZero"

definition is_inf :: "pyfloat \<Rightarrow> bool" where
  "is_inf x \<longleftrightarrow> x = PosInf \<or> x = NegInf"

fun negative :: "pyfloat \<Rightarrow> bool" where
  "negative (Finite q) \<longleftrightarrow> q < 0"
| "negative NegZero \<longleftrightarrow> True"
| "negative PosInf \<longleftrightarrow> False"
| "negative NegInf \<longleftrightarrow> True"
| "negative NaN \<longleftrightarrow> False"

definition signed_zero :: "bool \<Rightarrow> pyfloat" where
  "signed_zero neg = (if neg then NegZero else Finite 0)"

definition signed_inf :: "bool \<Rightarrow> pyfloat" where
  "signed_inf neg = (if neg then NegInf else PosInf)"

text \<open>\<open>bool(x)\<close>: only the zeros are false; infinities and NaN are true.\<close>

definition float_truthy :: "pyfloat \<Rightarrow> bool" where
  "float_truthy x \<longleftrightarrow> \<not> is_zero x"

fun float_abs :: "pyfloat \<Rightarrow> pyfloat" where
  "float_abs (Finite q) = Finite \<bar>q\<bar>"
| "float_abs NegZero = Finite 0"
| "float_abs PosInf = PosInf"
| "float_abs NegInf = PosInf"
| "float_abs NaN = NaN"

text \<open>\<open>x > y\<close>: false whenever a NaN is involved; the two zeros are equal.\<close>

fun float_gt :: "pyfloat \<Rightarrow> pyfloat \<Rightarrow> bool" where
  "float_gt (Finite a) (Finite b) \<longleftrightarrow> b < a"
| "float_gt (Finite a) NegZero \<longleftrightarrow> 0 < a"
| "float_gt NegZero (Finite b) \<longleftrightarrow> b < 0"
| "float_gt (Finite a) NegInf \<longleftrightarrow> True"
| "float_gt NegZero NegInf \<longleftrightarrow> True"
| "float_gt PosInf (Finite b) \<longleftrightarrow> True"
| "float_gt PosInf NegZero \<longleftrightarrow> True"
| "float_gt PosInf NegInf \<longleftrightarrow> True"
| "float_gt x y \<longleftrightarrow> False"

text \<open>
  The conversions between floats and text and the rounding of an exact result to the
  nearest double belong to the language runtime, not to the repository; they are
  parameters of the model: \<open>float(s)\<close> (\<open>None\<close> is ValueError), \<open>str(x)\<close>, the format
  \<open>{x:.Nf}\<close>, and the rounding of a nonzero rational (to a double, a zero or an infinity).
\<close>

record float_runtime =
  float_of_str :: "pystr \<Rightarrow> pyfloat option"
  str_float :: "pyfloat \<Rightarrow> pystr"
  format_f :: "nat \<Rightarrow> pyfloat \<Rightarrow> pystr"
  round_double :: "rat \<Rightarrow> pyfloat"

text \<open>\<open>a / b\<close> on two \<open>int\<close>s: a zero divisor raises ZeroDivisionError, a quotient
  beyond the doubles raises OverflowError.\<close>

definition int_truediv :: "float_runtime \<Rightarrow> int \<Rightarrow> int \<Rightarrow> pyerror + pyfloat" where
  "int_truediv rt a b =
     (if b = 0 then Inl ZeroDivisionError
      else if a = 0 then Inr (signed_zero (b < 0))
      else let q = round_double rt (of_int a / of_int b)
           in if is_inf q then Inl OverflowError else Inr q)"

text \<open>\<open>x / y\<close> and \<open>x * y\<close> on two \<open>float\<close>s: division by a zero raises
  ZeroDivisionError; everything else is IEEE arithmetic and raises nothing.\<close>

definition ieee_div :: "float_runtime \<Rightarrow> pyfloat \<Rightarrow> pyfloat \<Rightarrow> pyfloat" where
  "ieee_div rt x y =
     (if x = NaN \<or> y = NaN then NaN
      else if is_inf x \<and> is_inf y then NaN
      else if is_inf x then signed_inf (negative x \<noteq> negative y)
      else if is_inf y then signed_zero (negative x \<noteq> negative y)
      else if is_zero x then signed_zero (negative x \<noteq> negative y)
      else case (x, y) of
             (Finite a, Finite b) \<Rightarrow> round_double rt (a / b)
           | _ \<Rightarrow> NaN)"

definition float_truediv :: "float_runtime \<Rightarrow> pyfloat \<Rightarrow> pyfloat \<Rightarrow> pyerror + pyfloat" where
  "float_truediv rt x y =
     (if is_zero y then Inl ZeroDivisionError else Inr (ieee_div rt x y))"

definition float_mul :: "float_runtime \<Rightarrow> pyfloat \<Rightarrow> pyfloat \<Rightarrow> pyfloat" where
  "float_mul rt x y =
     (if x = NaN \<or> y = NaN then NaN
      else if (is_inf x \<and> is_zero y) \<or> (is_zero x \<and> is_inf y) then NaN
      else if is_inf x \<or> is_inf y then signed_inf (negative x \<noteq> negative y)
      else if is_zero x \<or> is_zero y then signed_zero (negative x \<noteq> negative y)
      else case (x, y) of
             (Finite a, Finite b) \<Rightarrow> round_double rt (a * b)
           | _ \<Rightarrow> NaN)"

section \<open>Data models (models.py)\<close>

datatype pydate = Date (year: nat) (month: nat) (day: nat)

record dated =
  date :: pydate

record SleepData = dated +
  total_sleep_duration :: int
  deep_sleep_duration :: int
  rem_sleep_duration :: int
  light_sleep_duration :: int
  sleep_score :: int
  restfulness :: "int option"
  sleep_efficiency :: "int option"

record ReadinessData = dated +
  readiness_score :: int
  temperature_deviation :: "pyfloat option"
  resting_heart_rate :: "int option"
  hrv_balance :: "int option"
  recovery_index :: "int option"
  previous_night_score :: "int option"
  sleep_balance :: "int option"
  activity_balance :: "int option"

record ActivityData = dated +
  activity_score :: int
  steps :: int
  total_calories :: int
  active_calories :: int
  target_calories :: int
  training_frequency :: "int option"
  training_volume :: "int option"
  recovery_time :: "int option"

record RecoveryRecommendation = dated +
  recommendation_type :: pystr
  message :: pystr
  confidence :: pyfloat
  key_factors :: "pystr list"

section \<open>The fallback rules (services/ai_coach.py)\<close>

definition determine_recommendation_type :: "ReadinessData \<Rightarrow> pystr" where
  "determine_recommendation_type readiness_data =
     (let score = readiness_score readiness_data
      in if score \<ge> 85 then pystr ''peak_performance''
         else if score \<ge> 70 then pystr ''training_ready''
         else if score \<ge> 55 then pystr ''moderate_activity''
         else if score \<ge> 40 then pystr ''light_recovery''
         else pystr ''rest_day'')"

text \<open>The truth value of an \<open>Optional[int]\<close> and of an \<open>Optional[float]\<close> in a
  condition: \<open>None\<close> and zero are false.\<close>

definition truthy_int :: "int option \<Rightarrow> bool" where
  "truthy_int v = (case v of None \<Rightarrow> False | Some i \<Rightarrow> i \<noteq> 0)"

definition truthy_float :: "pyfloat option \<Rightarrow> bool" where
  "truthy_float v = (case v of None \<Rightarrow> False | Some x \<Rightarrow> float_truthy x)"

text \<open>The five factor texts, as the f-strings of the source build them.\<close>

definition sleep_factor :: "SleepData \<Rightarrow> pystr list" where
  "sleep_factor sleep_data =
     (if sleep_score sleep_data \<ge> 85
      then [pystr ''Excellent sleep quality ('' @ str_int (sleep_score sleep_data) @ pystr ''/100)'']
      else if sleep_score sleep_data < 70
      then [pystr ''Poor sleep quality ('' @ str_int (sleep_score sleep_data) @ pystr ''/100)'']
      else [])"

definition readiness_factor :: "ReadinessData \<Rightarrow> pystr list" where
  "readiness_factor readiness_data =
     (if readiness_score readiness_data \<ge> 85
      then [pystr ''High readiness score ('' @ str_int (readiness_score readiness_data) @ pystr ''/100)'']
      else if readiness_score readiness_data < 70
      then [pystr ''Low readiness score ('' @ str_int (readiness_score readiness_data) @ pystr ''/100)'']
      else [])"

definition temperature_factor :: "float_runtime \<Rightarrow> ReadinessData \<Rightarrow> pystr list" where
  "temperature_factor rt readiness_data =
     (if truthy_float (temperature_deviation readiness_data) \<and>
         float_gt (float_abs (the (temperature_deviation readiness_data))) float_0_5
      then [pystr ''Elevated temperature deviation ('' @
            str_float rt (the (temperature_deviation readiness_data)) @ [176] @ pystr ''C)'']
      else [])"

definition hrv_factor :: "ReadinessData \<Rightarrow> pystr list" where
  "hrv_factor readiness_data =
     (if truthy_int (hrv_balance readiness_data) \<and> the (hrv_balance readiness_data) < 60
      then [pystr ''Low HRV balance ('' @ str_int (the (hrv_balance readiness_data)) @ pystr ''/100)'']
      else [])"

definition steps_factor :: "ActivityData \<Rightarrow> pystr list" where
  "steps_factor activity_data =
     (if steps activity_data < 5000
      then [pystr ''Low activity yesterday ('' @ str_int (steps activity_data) @ pystr '' steps)'']
      else [])"

text \<open>\<open>_generate_key_factors\<close>: the rules append in the order of the source, and the
  result is \<open>factors[:5]\<close>.\<close>

definition generate_key_factors ::
  "float_runtime \<Rightarrow> SleepData \<Rightarrow> ReadinessData \<Rightarrow> ActivityData \<Rightarrow> pystr list" where
  "generate_key_factors rt sleep_data readiness_data activity_data =
     take 5 (sleep_factor sleep_data @ readiness_factor readiness_data @
             temperature_factor rt readiness_data @ hrv_factor readiness_data @
             steps_factor activity_data)"

section \<open>Parsing the reply (services/ai_coach.py)\<close>

definition RECOMMENDATION_TYPE :: pystr where
  "RECOMMENDATION_TYPE = pystr ''RECOMMENDATION_TYPE:''"

definition KEY_FACTORS :: pystr where
  "KEY_FACTORS = pystr ''KEY_FACTORS:''"

definition MESSAGE :: pystr where
  "MESSAGE = pystr ''MESSAGE:''"

definition SPECIFIC_TIPS :: pystr where
  "SPECIFIC_TIPS = pystr ''SPECIFIC_TIPS:''"

definition CONFIDENCE :: pystr where
  "CONFIDENCE = pystr ''CONFIDENCE:''"

text \<open>Sequencing of statements that may raise.\<close>

definition bind_err :: "'e + 'a \<Rightarrow> ('a \<Rightarrow> 'e + 'b) \<Rightarrow> 'e + 'b" where
  "bind_err m f = (case m of Inl e \<Rightarrow> Inl e | Inr a \<Rightarrow> f a)"

text \<open>\<open>[line for line in text.split('\n') if marker in line][0].split(":", 1)[1].strip()\<close>:
  both subscripts may raise IndexError.\<close>

definition marker_value :: "pystr \<Rightarrow> pystr \<Rightarrow> pyerror + pystr" where
  "marker_value marker response_text =
     bind_err (item (filter (sublist marker) (split_on NL response_text)) 0) (\<lambda>marker_line.
     bind_err (item (split_once 58 marker_line) 1) (\<lambda>v.
     Inr (strip v)))"

definition extract_rec_type :: "pystr \<Rightarrow> pyerror + pystr" where
  "extract_rec_type response_text =
     (if sublist RECOMMENDATION_TYPE response_text
      then marker_value RECOMMENDATION_TYPE response_text
      else Inr (pystr ''moderate_activity''))"

text \<open>\<open>line.strip().startswith('-')\<close> and the text kept from such a line,
  \<open>line.strip('- ').strip()\<close>.\<close>

definition dash_line :: "pystr \<Rightarrow> bool" where
  "dash_line line \<longleftrightarrow> prefix (pystr ''-'') (strip line)"

definition bullet_text :: "pystr \<Rightarrow> pystr" where
  "bullet_text line = strip (strip_chars (pystr ''- '') line)"

text \<open>The loop over the lines that collects the key factors; \<open>break\<close> returns the
  list collected so far.\<close>

fun key_factors_loop :: "bool \<Rightarrow> pystr list \<Rightarrow> pystr list \<Rightarrow> pystr list" where
  "key_factors_loop in_factors factors [] = factors"
| "key_factors_loop in_factors factors (line # lines) =
     (if sublist KEY_FACTORS line then key_factors_loop True factors lines
      else if in_factors \<and> dash_line line
        then key_factors_loop in_factors (factors @ [bullet_text line]) lines
      else if in_factors \<and> strip line \<noteq> [] \<and> \<not> dash_line line then factors
      else key_factors_loop in_factors factors lines)"

definition extract_key_factors :: "pystr \<Rightarrow> pystr list" where
  "extract_key_factors response_text =
     (if sublist KEY_FACTORS response_text
      then key_factors_loop False [] (split_on NL response_text)
      else [])"

text \<open>The main message: \<open>response_text[message_start:message_end].strip()\<close>, where
  \<open>message_end\<close> is whatever \<open>find\<close> returned last, \<open>-1\<close> included.\<close>

definition extract_message :: "pystr \<Rightarrow> pystr" where
  "extract_message response_text =
     (if sublist MESSAGE response_text
      then
        let message_start = find response_text MESSAGE 0 + int (length MESSAGE);
            message_end = find response_text SPECIFIC_TIPS message_start;
            message_end = (if message_end = - 1
                           then find response_text CONFIDENCE message_start
                           else message_end)
        in strip (slice response_text message_start message_end)
      else [])"

text \<open>The loop that collects the tips: it leaves only at a line with the
  \<open>CONFIDENCE:\<close> marker that is not a dash line.\<close>

fun tips_loop :: "bool \<Rightarrow> pystr list \<Rightarrow> pystr list \<Rightarrow> pystr list" where
  "tips_loop in_tips specific_tips [] = specific_tips"
| "tips_loop in_tips specific_tips (line # lines) =
     (if sublist SPECIFIC_TIPS line then tips_loop True specific_tips lines
      else if in_tips \<and> dash_line line
        then tips_loop in_tips (specific_tips @ [bullet_text line]) lines
      else if in_tips \<and> sublist CONFIDENCE line then specific_tips
      else tips_loop in_tips specific_tips lines)"

definition extract_specific_tips :: "pystr \<Rightarrow> pystr list" where
  "extract_specific_tips response_text =
     (if sublist SPECIFIC_TIPS response_text
      then tips_loop False [] (split_on NL response_text)
      else [])"

text \<open>The message with the tips appended, each behind a bullet (U+2022).\<close>

definition combine_message :: "pystr \<Rightarrow> pystr list \<Rightarrow> pystr" where
  "combine_message msg specific_tips =
     (if specific_tips \<noteq> []
      then msg @ [NL, NL] @ pystr ''Specific Tips:'' @ [NL] @
           join [NL] (map (\<lambda>tip. [8226, 32] @ tip) specific_tips)
      else msg)"

definition extract_confidence :: "float_runtime \<Rightarrow> pystr \<Rightarrow> pyerror + pyfloat" where
  "extract_confidence rt response_text =
     (if sublist CONFIDENCE response_text
      then bind_err (marker_value CONFIDENCE response_text) (\<lambda>conf_str.
           Inr (case float_of_str rt conf_str of Some x \<Rightarrow> x | None \<Rightarrow> float_0_8))
      else Inr float_0_8)"

text \<open>The body of the \<open>try\<close> block of \<open>_parse_ai_response\<close>.\<close>

definition parse_try ::
  "float_runtime \<Rightarrow> pystr \<Rightarrow> pydate \<Rightarrow> SleepData \<Rightarrow> ReadinessData \<Rightarrow> ActivityData
     \<Rightarrow> pyerror + RecoveryRecommendation" where
  "parse_try rt response_text target_date sleep_data readiness_data activity_data =
     bind_err (extract_rec_type response_text) (\<lambda>rec_type.
     let factors = extract_key_factors response_text;
         msg = extract_message response_text;
         specific_tips = extract_specific_tips response_text;
         full_message = combine_message msg specific_tips
     in bind_err (extract_confidence rt response_text) (\<lambda>conf.
     let factors = (if factors = []
                    then generate_key_factors rt sleep_data readiness_data activity_data
                    else factors)
     in Inr \<lparr>date = target_date, recommendation_type = rec_type, message = full_message,
             confidence = conf, key_factors = factors\<rparr>))"

text \<open>The handler of \<open>except Exception\<close>: the recommendation built from the raw reply.\<close>

definition parse_except ::
  "float_runtime \<Rightarrow> pystr \<Rightarrow> pydate \<Rightarrow> SleepData \<Rightarrow> ReadinessData \<Rightarrow> ActivityData
     \<Rightarrow> RecoveryRecommendation" where
  "parse_except rt response_text target_date sleep_data readiness_data activity_data =
     \<lparr>date = target_date,
      recommendation_type = determine_recommendation_type readiness_data,
      message = take 500 response_text,
      confidence = float_0_7,
      key_factors = generate_key_factors rt sleep_data readiness_data activity_data\<rparr>"

definition parse_ai_response ::
  "float_runtime \<Rightarrow> pystr \<Rightarrow> pydate \<Rightarrow> SleepData \<Rightarrow> ReadinessData \<Rightarrow> ActivityData
     \<Rightarrow> pyerror + RecoveryRecommendation" where
  "parse_ai_response rt response_text target_date sleep_data readiness_data activity_data =
     (case parse_try rt response_text target_date sleep_data readiness_data activity_data of
        Inr recommendation \<Rightarrow> Inr recommendation
      | Inl e \<Rightarrow>
          Inr (parse_except rt response_text target_date sleep_data readiness_data activity_data))"

section \<open>Composing the prompt (services/ai_coach.py)\<close>

text \<open>How the f-string renders its fields: \<open>None\<close> for an absent optional, \<open>{n:,}\<close> with a
  comma between groups of three digits, and a date in ISO form.\<close>

definition str_optional_int :: "int option \<Rightarrow> pystr" where
  "str_optional_int v = (case v of None \<Rightarrow> pystr ''None'' | Some i \<Rightarrow> str_int i)"

definition str_optional_float :: "float_runtime \<Rightarrow> pyfloat option \<Rightarrow> pystr" where
  "str_optional_float rt v = (case v of None \<Rightarrow> pystr ''None'' | Some x \<Rightarrow> str_float rt x)"

fun commas :: "pystr \<Rightarrow> pystr" where
  "commas ds =
     (if length ds \<le> 3 then ds
      else commas (take (length ds - 3) ds) @ 44 # drop (length ds - 3) ds)"

declare commas.simps [simp del]

definition format_comma :: "int \<Rightarrow> pystr" where
  "format_comma i =
     (if i < 0 then 45 # commas (digits (nat (- i))) else commas (digits (nat i)))"

definition zfill :: "nat \<Rightarrow> pystr \<Rightarrow> pystr" where
  "zfill n s = replicate (n - length s) 48 @ s"

definition isoformat :: "pydate \<Rightarrow> pystr" where
  "isoformat d =
     zfill 4 (digits (year d)) @ pystr ''-'' @ zfill 2 (digits (month d)) @ pystr ''-'' @
     zfill 2 (digits (day d))"

text \<open>The stage percentage \<open>stage_hrs / total_sleep_hrs * 100\<close>.\<close>

definition stage_percent :: "float_runtime \<Rightarrow> pyfloat \<Rightarrow> pyfloat \<Rightarrow> pyerror + pyfloat" where
  "stage_percent rt stage_hrs total_sleep_hrs =
     bind_err (float_truediv rt stage_hrs total_sleep_hrs) (\<lambda>share.
     Inr (float_mul rt share (Finite 100)))"

text \<open>The text of the prompt, line by line, from the values already computed.\<close>

definition prompt_text ::
  "float_runtime \<Rightarrow> SleepData \<Rightarrow> ReadinessData \<Rightarrow> ActivityData \<Rightarrow>
     pyfloat \<Rightarrow> pyfloat \<Rightarrow> pyfloat \<Rightarrow> pyfloat \<Rightarrow> pyfloat \<Rightarrow> pyfloat \<Rightarrow> pyfloat \<Rightarrow> pystr" where
  "prompt_text rt sleep_data readiness_data activity_data total_sleep_hrs deep_sleep_hrs
       rem_sleep_hrs light_sleep_hrs deep_percent rem_percent light_percent =
     join [NL]
      [pystr ''You are an expert recovery coach and sports scientist analyzing health data from an Oura Ring.'',
       [],
       pystr ''**Today's Date:** '' @ isoformat (date sleep_data),
       [],
       pystr ''**SLEEP METRICS:**'',
       pystr ''- Sleep Score: '' @ str_int (sleep_score sleep_data) @ pystr ''/100'',
       pystr ''- Total Sleep: '' @ format_f rt 1 total_sleep_hrs @ pystr '' hours'',
       pystr ''- Deep Sleep: '' @ format_f rt 1 deep_sleep_hrs @ pystr '' hours ('' @
         format_f rt 0 deep_percent @ pystr ''% of total)'',
       pystr ''- REM Sleep: '' @ format_f rt 1 rem_sleep_hrs @ pystr '' hours ('' @
         format_f rt 0 rem_percent @ pystr ''% of total)'',
       pystr ''- Light Sleep: '' @ format_f rt 1 light_sleep_hrs @ pystr '' hours ('' @
         format_f rt 0 light_percent @ pystr ''% of total)'',
       pystr ''- Sleep Efficiency: '' @ str_optional_int (sleep_efficiency sleep_data) @ pystr ''%'',
       pystr ''- Restfulness: '' @ str_optional_int (restfulness sleep_data) @ pystr ''/100'',
       [],
       pystr ''**READINESS METRICS:**'',
       pystr ''- Readiness Score: '' @ str_int (readiness_score readiness_data) @ pystr ''/100'',
       pystr ''- Resting Heart Rate: '' @ str_optional_int (resting_heart_rate readiness_data) @
         pystr '' bpm'',
       pystr ''- HRV Balance: '' @ str_optional_int (hrv_balance readiness_data) @ pystr ''/100'',
       pystr ''- Temperature Deviation: '' @
         str_optional_float rt (temperature_deviation readiness_data) @ [176] @
         pystr ''C from baseline'',
       pystr ''- Recovery Index: '' @ str_optional_int (recovery_index readiness_data) @ pystr ''/100'',
       pystr ''- Sleep Balance: '' @ str_optional_int (sleep_balance readiness_data) @ pystr ''/100'',
       pystr ''- Activity Balance: '' @ str_optional_int (activity_balance readiness_data) @
         pystr ''/100'',
       [],
       pystr ''**ACTIVITY METRICS (Previous Day):**'',
       pystr ''- Activity Score: '' @ str_int (activity_score activity_data) @ pystr ''/100'',
       pystr ''- Steps: '' @ format_comma (steps activity_data),
       pystr ''- Total Calories: '' @ str_int (total_calories activity_data),
       pystr ''- Active Calories: '' @ str_int (active_calories activity_data),
       pystr ''- Training Volume: '' @ str_optional_int (training_volume activity_data) @
         pystr '' minutes'',
       [],
       pystr ''**CONTEXT & GUIDELINES:**'',
       pystr ''- Deep sleep optimal: 1.5-2 hours (15-25% of total sleep)'',
       pystr ''- REM sleep optimal: 1.5-2.5 hours (20-25% of total sleep)'',
       pystr ''- Resting HR baseline: 55-65 bpm (varies by individual)'',
       pystr ''- Temperature deviation >0.5'' @ [176] @
         pystr ''C may indicate stress, illness, or overtraining'',
       pystr ''- Readiness <70 = prioritize recovery, 70-85 = light-moderate activity, >85 = ready for hard training'',
       [],
       pystr ''**YOUR TASK:**'',
       pystr ''Analyze this data and provide a recovery recommendation. Format your response EXACTLY as follows:'',
       [],
       pystr ''RECOMMENDATION_TYPE: [choose ONE: rest_day, light_recovery, moderate_activity, training_ready, peak_performance]'',
       [],
       pystr ''KEY_FACTORS:'',
       pystr ''- [Factor 1: brief observation about the data]'',
       pystr ''- [Factor 2: another key insight]'',
       pystr ''- [Factor 3: another key insight]'',
       [],
       pystr ''MESSAGE:'',
       pystr ''[2-3 sentences with your main recommendation for today. Be specific and actionable. Mention the most important metrics.]'',
       [],
       pystr ''SPECIFIC_TIPS:'',
       pystr ''- [Specific tip #1]'',
       pystr ''- [Specific tip #2]'',
       pystr ''- [Specific tip #3]'',
       pystr ''- [Specific tip #4]'',
       [],
       pystr ''CONFIDENCE: [0.0-1.0, how confident are you in this recommendation based on data quality]'',
       [],
       pystr ''Be direct, specific, and actionable. Focus on what matters most for today's recovery.'']"

text \<open>\<open>_build_analysis_prompt\<close>: four conversions of seconds to hours, then the f-string
  with the three stage percentages; the first statement that raises ends it.\<close>

definition build_analysis_prompt ::
  "float_runtime \<Rightarrow> SleepData \<Rightarrow> ReadinessData \<Rightarrow> ActivityData \<Rightarrow> pyerror + pystr" where
  "build_analysis_prompt rt sleep_data readiness_data activity_data =
     bind_err (int_truediv rt (total_sleep_duration sleep_data) 3600) (\<lambda>total_sleep_hrs.
     bind_err (int_truediv rt (deep_sleep_duration sleep_data) 3600) (\<lambda>deep_sleep_hrs.
     bind_err (int_truediv rt (rem_sleep_duration sleep_data) 3600) (\<lambda>rem_sleep_hrs.
     bind_err (int_truediv rt (light_sleep_duration sleep_data) 3600) (\<lambda>light_sleep_hrs.
     bind_err (stage_percent rt deep_sleep_hrs total_sleep_hrs) (\<lambda>deep_percent.
     bind_err (stage_percent rt rem_sleep_hrs total_sleep_hrs) (\<lambda>rem_percent.
     bind_err (stage_percent rt light_sleep_hrs total_sleep_hrs) (\<lambda>light_percent.
     Inr (prompt_text rt sleep_data readiness_data activity_data total_sleep_hrs
            deep_sleep_hrs rem_sleep_hrs light_sleep_hrs deep_percent rem_percent
            light_percent))))))))"

section \<open>The recommendation service (services/ai_coach.py)\<close>

text \<open>What \<open>client.messages.create\<close> did: it returned a message with the texts of its
  content blocks, or raised \<open>anthropic.APIError\<close>, or raised another exception; the text
  carried is \<open>str(e)\<close>.\<close>

datatype llm_outcome = Completed "pystr list" | APIError pystr | OtherError pystr

text \<open>What \<open>analyze_recovery\<close> raises: an exception from outside its \<open>try\<close> block as it
  is, or \<open>AICoachError\<close> with its text.\<close>

datatype fault = Uncaught pyerror | AICoachError pystr

definition str_error :: "pyerror \<Rightarrow> pystr" where
  "str_error e =
     (case e of
        IndexError \<Rightarrow> pystr ''list index out of range''
      | ZeroDivisionError \<Rightarrow> pystr ''float division by zero''
      | OverflowError \<Rightarrow> pystr ''integer division result too large for a float'')"

definition analyze_recovery ::
  "float_runtime \<Rightarrow> (pystr \<Rightarrow> llm_outcome) \<Rightarrow> SleepData \<Rightarrow> ReadinessData \<Rightarrow> ActivityData
     \<Rightarrow> fault + RecoveryRecommendation" where
  "analyze_recovery rt create sleep_data readiness_data activity_data =
     (case build_analysis_prompt rt sleep_data readiness_data activity_data of
        Inl e \<Rightarrow> Inl (Uncaught e)
      | Inr prompt \<Rightarrow>
          (case create prompt of
             APIError e \<Rightarrow> Inl (AICoachError (pystr ''Claude API error: '' @ e))
           | OtherError e \<Rightarrow> Inl (AICoachError (pystr ''Error generating recommendation: '' @ e))
           | Completed content \<Rightarrow>
               (case item content 0 of
                  Inl e \<Rightarrow>
                    Inl (AICoachError (pystr ''Error generating recommendation: '' @ str_error e))
                | Inr response_text \<Rightarrow>
                    (case parse_ai_response rt response_text (date sleep_data) sleep_data
                            readiness_data activity_data of
                       Inl e \<Rightarrow>
                         Inl (AICoachError
                                (pystr ''Error generating recommendation: '' @ str_error e))
                     | Inr recommendation \<Rightarrow> Inr recommendation))))"

section \<open>The endpoints of the provider data (main.py)\<close>

text \<open>What obtaining the client and awaiting its fetch did: it returned the record, raised
  \<open>OuraAPIError\<close>, or raised another exception. \<open>date.fromisoformat\<close> is a parameter;
  \<open>None\<close> is its ValueError.\<close>

datatype 'a fetch_outcome = Fetched 'a | RaisedOuraAPIError pystr | RaisedException pystr

datatype 'a http_result = Returned 'a | HTTPException nat pystr

definition get_sleep_data ::
  "(pystr \<Rightarrow> pydate option) \<Rightarrow> (pydate \<Rightarrow> SleepData fetch_outcome) \<Rightarrow> pystr
     \<Rightarrow> SleepData http_result" where
  "get_sleep_data fromisoformat oura_client date_str =
     (case fromisoformat date_str of
        None \<Rightarrow> HTTPException 400 (pystr ''Invalid date format. Use YYYY-MM-DD'')
      | Some query_date \<Rightarrow>
          (case oura_client query_date of
             Fetched sleep_data \<Rightarrow> Returned sleep_data
           | RaisedOuraAPIError e \<Rightarrow> HTTPException 503 (pystr ''Oura API error: '' @ e)
           | RaisedException e \<Rightarrow> HTTPException 500 (pystr ''Internal error: '' @ e)))"

definition get_readiness_data ::
  "(pystr \<Rightarrow> pydate option) \<Rightarrow> (pydate \<Rightarrow> ReadinessData fetch_outcome) \<Rightarrow> pystr
     \<Rightarrow> ReadinessData http_result" where
  "get_readiness_data fromisoformat oura_client date_str =
     (case fromisoformat date_str of
        None \<Rightarrow> HTTPException 400 (pystr ''Invalid date format. Use YYYY-MM-DD'')
      | Some query_date \<Rightarrow>
          (case oura_client query_date of
             Fetched readiness_data \<Rightarrow> Returned readiness_data
           | RaisedOuraAPIError e \<Rightarrow> HTTPException 509 (pystr ''Oura API error: '' @ e)
           | RaisedException e \<Rightarrow> HTTPException 500 (pystr ''Internal error: '' @ e)))"

definition get_activity_data ::
  "(pystr \<Rightarrow> pydate option) \<Rightarrow> (pydate \<Rightarrow> ActivityData fetch_outcome) \<Rightarrow> pystr
     \<Rightarrow> ActivityData http_result" where
  "get_activity_data fromisoformat oura_client date_str =
     (case fromisoformat date_str of
        None \<Rightarrow> HTTPException 400 (pystr ''Invalid date format. Use YYYY-MM-DD'')
      | Some query_date \<Rightarrow>
          (case oura_client query_date of
             Fetched activity_data \<Rightarrow> Returned activity_data
           | RaisedOuraAPIError e \<Rightarrow> HTTPException 503 (pystr ''Oura API error: '' @ e)
           | RaisedException e \<Rightarrow> HTTPException 500 (pystr ''Internal error: '' @ e)))"

section \<open>The bulleted sections, described by their lines\<close>

text \<open>The lines after the first line that holds the marker.\<close>

definition after_marker_line :: "pystr \<Rightarrow> pystr list \<Rightarrow> pystr list" where
  "after_marker_line marker lines = tl (dropWhile (\<lambda>l. \<not> sublist marker l) lines)"

text \<open>The texts of the dash lines without the marker, among the lines after the first
  marker line and before the first line at which the section stops.\<close>

definition collected_bullets :: "pystr \<Rightarrow> (pystr \<Rightarrow> bool) \<Rightarrow> pystr list \<Rightarrow> pystr list" where
  "collected_bullets marker stop lines =
     map bullet_text
       (filter (\<lambda>l. dash_line l \<and> \<not> sublist marker l)
          (takeWhile (\<lambda>l. \<not> stop l) (after_marker_line marker lines)))"

text \<open>Where the two loops of the source stop: the key factors at the first line that is
  neither blank nor a dash line nor a marker line, the tips at the first line with the
  \<open>CONFIDENCE:\<close> marker that is neither a dash line nor a marker line.\<close>

definition key_factors_stop :: "pystr \<Rightarrow> bool" where
  "key_factors_stop l \<longleftrightarrow> \<not> sublist KEY_FACTORS l \<and> \<not> dash_line l \<and> strip l \<noteq> []"

definition tips_stop :: "pystr \<Rightarrow> bool" where
  "tips_stop l \<longleftrightarrow> \<not> sublist SPECIFIC_TIPS l \<and> \<not> dash_line l \<and> sublist CONFIDENCE l"

text \<open>The same section read as the specification words it, for both markers alike: the
  dash lines after the marker line, up to the first line that is neither blank nor a dash
  line.\<close>

definition claimed_bullets :: "pystr \<Rightarrow> pystr list \<Rightarrow> pystr list" where
  "claimed_bullets marker lines =
     map bullet_text
       (filter dash_line
          (takeWhile (\<lambda>l. dash_line l \<or> strip l = []) (after_marker_line marker lines)))"

section \<open>The message section, as the specification words it\<close>

text \<open>The raw text between the \<open>MESSAGE:\<close> marker and whichever of
  \<open>SPECIFIC_TIPS:\<close> and \<open>CONFIDENCE:\<close> comes next, or the end of the text when
  neither follows.\<close>

definition claimed_message :: "pystr \<Rightarrow> pystr" where
  "claimed_message response_text =
     (if sublist MESSAGE response_text
      then
        let message_start = find response_text MESSAGE 0 + int (length MESSAGE);
            tips_at = find response_text SPECIFIC_TIPS message_start;
            confidence_at = find response_text CONFIDENCE message_start;
            message_end =
              (if tips_at = - 1 \<and> confidence_at = - 1 then int (length response_text)
               else if tips_at = - 1 then confidence_at
               else if confidence_at = - 1 then tips_at
               else min tips_at confidence_at)
        in slice response_text message_start message_end
      else [])"

section \<open>Sample inputs\<close>

text \<open>The records of the scenario \<open>sleep_score = 90\<close>, \<open>readiness_score = 45\<close>,
  \<open>steps = 3000\<close>, and a reply text given line by line.\<close>

definition sample_sleep :: SleepData where
  "sample_sleep =
     \<lparr>date = Date 2024 1 15, total_sleep_duration = 27000, deep_sleep_duration = 5400,
      rem_sleep_duration = 6300, light_sleep_duration = 15300, sleep_score = 90,
      restfulness = Some 80, sleep_efficiency = None\<rparr>"

definition sample_readiness :: ReadinessData where
  "sample_readiness =
     \<lparr>date = Date 2024 1 15, readiness_score = 45, temperature_deviation = None,
      resting_heart_rate = Some 58, hrv_balance = None, recovery_index = None,
      previous_night_score = None, sleep_balance = None, activity_balance = None\<rparr>"

definition sample_activity :: ActivityData where
  "sample_activity =
     \<lparr>date = Date 2024 1 14, activity_score = 60, steps = 3000, total_calories = 2100,
      active_calories = 250, target_calories = 500, training_frequency = None,
      training_volume = None, recovery_time = None\<rparr>"

text \<open>A stand-in for the runtime in the closed examples: it converts a few exactly
  representable values and rounds nothing. The theorems hold for every runtime.\<close>

definition sample_runtime :: float_runtime where
  "sample_runtime =
     \<lparr>float_of_str = map_of [(pystr ''0.0'', Finite 0), (pystr ''0.5'', Finite (1 / 2)),
                              (pystr ''0.75'', Finite (3 / 4)), (pystr ''1.0'', Finite 1)],
      str_float = (\<lambda>x. if x = Finite (3 / 4) then pystr ''0.75'' else pystr ''0.0''),
      format_f = (\<lambda>n x. pystr ''0''),
      round_double = Finite\<rparr>"

definition text_of_lines :: "string list \<Rightarrow> pystr" where
  "text_of_lines ls = join [NL] (map pystr ls)"

definition unparseable_reply :: pystr where
  "unparseable_reply = pystr ''I am sorry, I cannot analyze this data.''"

definition interrupted_tips_reply :: pystr where
  "interrupted_tips_reply =
     text_of_lines [''SPECIFIC_TIPS:'', ''- Hydrate'', ''Note the following'', ''- Stretch'',
                    ''CONFIDENCE: 0.75'', ''- Sleep'']"

definition repeated_factors_reply :: pystr where
  "repeated_factors_reply =
     text_of_lines [''KEY_FACTORS:'', ''- Low HRV'', ''More KEY_FACTORS:'', ''- Good sleep'',
                    ''MESSAGE:'', ''- Rest'']"

definition six_factor_reply :: pystr where
  "six_factor_reply =
     text_of_lines [''KEY_FACTORS:'', ''- a'', ''- b'', ''- c'', ''- d'', ''- e'', ''- f'']"

text \<open>The sample readiness record with an HRV balance of 0, the lowest value of its range.\<close>

definition zero_hrv_readiness :: ReadinessData where
  "zero_hrv_readiness = sample_readiness\<lparr>hrv_balance := Some 0\<rparr>"

definition confidence_first_reply :: pystr where
  "confidence_first_reply =
     text_of_lines [''MESSAGE: Rest.'', ''CONFIDENCE: 0.5'', ''SPECIFIC_TIPS:'', ''- Hydrate'']"

definition message_tips_reply :: pystr where
  "message_tips_reply = text_of_lines [''MESSAGE: Walk.'', ''SPECIFIC_TIPS:'', ''- Hydrate'']"


section \<open>Lines and markers\<close>

text \<open>A marker without a line break that occurs in a text occurs in one of its lines, and
  a line is a part of the text.\<close>

lemma split_on_not_Nil: "split_on c s \<noteq> []"
  by (induction s) (auto split: list.splits)

lemma split_on_Cons:
  "split_on c (x # xs) =
     (if x = c then [] # split_on c xs
      else (x # hd (split_on c xs)) # tl (split_on c xs))"
  using split_on_not_Nil [of c xs] by (cases "split_on c xs") auto

lemma hd_split_on: "hd (split_on c s) = takeWhile (\<lambda>x. x \<noteq> c) s"
  by (induction s) (auto simp: split_on_Cons simp del: split_on.simps(2))

lemma prefix_takeWhile:
  assumes "prefix m s" "c \<notin> set m"
  shows "prefix m (takeWhile (\<lambda>x. x \<noteq> c) s)"
proof -
  from assms(1) obtain zs where s: "s = m @ zs"
    by (auto simp: prefix_def)
  have "takeWhile (\<lambda>x. x \<noteq> c) (m @ zs) = m @ takeWhile (\<lambda>x. x \<noteq> c) zs"
    by (rule takeWhile_append2) (use assms(2) in auto)
  then show ?thesis
    by (simp add: s)
qed

lemma sublist_some_line:
  assumes "c \<notin> set m" "m \<noteq> []" "sublist m s"
  shows "\<exists>l \<in> set (split_on c s). sublist m l"
  using assms(3)
  supply split_on.simps(2) [simp del] split_on_Cons [simp]
proof (induction s)
  case Nil
  then show ?case using assms(2) by simp
next
  case (Cons x xs)
  let ?L = "split_on c xs"
  have L: "?L = hd ?L # tl ?L"
    using split_on_not_Nil [of c xs] by simp
  from Cons.prems consider (here) "prefix m (x # xs)" | (later) "sublist m xs"
    by (auto simp: sublist_Cons_right)
  then show ?case
  proof cases
    case here
    then have "x \<noteq> c"
      using assms(1,2) by (cases m) auto
    moreover have "prefix m (x # hd ?L)"
      using prefix_takeWhile [OF here assms(1)] \<open>x \<noteq> c\<close> by (simp add: hd_split_on)
    ultimately show ?thesis
      by (auto intro: prefix_imp_sublist)
  next
    case later
    then obtain l where l: "l \<in> set ?L" "sublist m l"
      using Cons.IH by blast
    show ?thesis
    proof (cases "x = c")
      case True
      then show ?thesis using l by auto
    next
      case False
      from l(1) L have "l = hd ?L \<or> l \<in> set (tl ?L)"
        by (metis set_ConsD)
      then show ?thesis
      proof
        assume "l = hd ?L"
        then have "sublist m (x # hd ?L)"
          using l(2) by (simp add: sublist_Cons_right)
        then show ?thesis using False by simp
      next
        assume "l \<in> set (tl ?L)"
        then show ?thesis using False l(2) by auto
      qed
    qed
  qed
qed

lemma line_sublist:
  "l \<in> set (split_on c s) \<Longrightarrow> sublist l s"
  supply split_on.simps(2) [simp del] split_on_Cons [simp]
proof (induction s arbitrary: l)
  case Nil
  then show ?case by simp
next
  case (Cons x xs)
  let ?L = "split_on c xs"
  have L: "?L = hd ?L # tl ?L"
    using split_on_not_Nil [of c xs] by simp
  show ?case
  proof (cases "x = c")
    case True
    with Cons.prems have "l = [] \<or> l \<in> set ?L" by auto
    then show ?thesis using Cons.IH by (auto simp: sublist_Cons_right)
  next
    case False
    with Cons.prems have "l = x # hd ?L \<or> l \<in> set (tl ?L)" by auto
    then show ?thesis
    proof
      assume l: "l = x # hd ?L"
      have "prefix (hd ?L) xs"
        by (simp add: hd_split_on) (metis prefix_def takeWhile_dropWhile_id)
      then show ?thesis using l by (simp add: sublist_Cons_right)
    next
      assume "l \<in> set (tl ?L)"
      then have "l \<in> set ?L" using L by (metis list.set_intros(2))
      then show ?thesis using Cons.IH by (auto simp: sublist_Cons_right)
    qed
  qed
qed

lemma no_marker_no_line:
  "\<not> sublist m s \<Longrightarrow> filter (sublist m) (split_on c s) = []"
  by (auto simp: filter_empty_conv dest: line_sublist intro: sublist_order.order_trans)

lemma marker_value_total:
  assumes "NL \<notin> set marker" "58 \<in> set marker" "sublist marker response_text"
  shows "\<exists>v. marker_value marker response_text = Inr v"
proof -
  have ne: "marker \<noteq> []" using assms(2) by auto
  let ?ls = "filter (sublist marker) (split_on NL response_text)"
  from sublist_some_line [OF assms(1) ne assms(3)]
  have "?ls \<noteq> []" by (auto simp: filter_empty_conv)
  then obtain l ls where ls: "?ls = l # ls" by (cases ?ls) auto
  then have "l \<in> set ?ls" by simp
  then have "sublist marker l" by simp
  then have "58 \<in> set l" using assms(2) by (meson set_mono_sublist subsetD)
  then have "dropWhile (\<lambda>x. x \<noteq> 58) l \<noteq> []" by (simp add: dropWhile_eq_Nil_conv) 
  then have "length (split_once 58 l) = 2"
    by (auto simp: split_once_def split: list.splits)
  then show ?thesis
    by (simp add: marker_value_def bind_err_def item_def ls)
qed

section \<open>The parser never reaches its handler\<close>

text \<open>A line that holds a marker holds its colon, so neither subscript of the two
  one-line fields can fail, and the \<open>try\<close> block always returns.\<close>

lemma extract_rec_type_total: "\<exists>v. extract_rec_type response_text = Inr v"
proof (cases "sublist RECOMMENDATION_TYPE response_text")
  case True
  have "NL \<notin> set RECOMMENDATION_TYPE" "58 \<in> set RECOMMENDATION_TYPE"
    by (simp_all add: RECOMMENDATION_TYPE_def pystr_def NL_def)
  from marker_value_total [OF this True] show ?thesis
    by (simp add: extract_rec_type_def True)
next
  case False
  then show ?thesis by (simp add: extract_rec_type_def)
qed

lemma extract_confidence_total: "\<exists>x. extract_confidence rt response_text = Inr x"
proof (cases "sublist CONFIDENCE response_text")
  case True
  have "NL \<notin> set CONFIDENCE" "58 \<in> set CONFIDENCE"
    by (simp_all add: CONFIDENCE_def pystr_def NL_def)
  from marker_value_total [OF this True] show ?thesis
    by (auto simp: extract_confidence_def True bind_err_def)
next
  case False
  then show ?thesis by (simp add: extract_confidence_def)
qed

lemma parse_try_total:
  "\<exists>recommendation. parse_try rt response_text target_date sleep_data readiness_data activity_data = Inr recommendation"
proof -
  obtain v where v: "extract_rec_type response_text = Inr v"
    using extract_rec_type_total by blast
  obtain x where x: "extract_confidence rt response_text = Inr x"
    using extract_confidence_total by blast
  show ?thesis
    by (simp add: parse_try_def v x bind_err_def Let_def)
qed

text \<open>
  C1 (as the code has it). For every triple of records and every reply text,
  \<open>_parse_ai_response\<close> returns a recommendation without raising, and it is the one the
  \<open>try\<close> block built: the handler with the readiness table and confidence 0.7 is never
  entered. For a reply with none of the five markers the recommendation type is the
  default \<open>moderate_activity\<close>, the confidence is the default 0.8, the message is empty
  and the key factors are the synthesized ones.
\<close>

theorem parse_ai_response_defaults:
  "(\<exists>recommendation.
      parse_ai_response rt response_text target_date sleep_data readiness_data activity_data =
        Inr recommendation \<and>
      parse_try rt response_text target_date sleep_data readiness_data activity_data =
        Inr recommendation) \<and>
   (\<not> sublist RECOMMENDATION_TYPE response_text \<and> \<not> sublist KEY_FACTORS response_text \<and>
    \<not> sublist MESSAGE response_text \<and> \<not> sublist SPECIFIC_TIPS response_text \<and>
    \<not> sublist CONFIDENCE response_text \<longrightarrow>
      parse_ai_response rt response_text target_date sleep_data readiness_data activity_data =
        Inr \<lparr>date = target_date, recommendation_type = pystr ''moderate_activity'',
             message = [], confidence = float_0_8,
             key_factors = generate_key_factors rt sleep_data readiness_data activity_data\<rparr>)"
proof (intro conjI impI)
  obtain recommendation where
    "parse_try rt response_text target_date sleep_data readiness_data activity_data = Inr recommendation"
    using parse_try_total by blast
  then show "\<exists>recommendation.
      parse_ai_response rt response_text target_date sleep_data readiness_data activity_data =
        Inr recommendation \<and>
      parse_try rt response_text target_date sleep_data readiness_data activity_data =
        Inr recommendation"
    by (simp add: parse_ai_response_def)
next
  assume "\<not> sublist RECOMMENDATION_TYPE response_text \<and> \<not> sublist KEY_FACTORS response_text \<and>
    \<not> sublist MESSAGE response_text \<and> \<not> sublist SPECIFIC_TIPS response_text \<and>
    \<not> sublist CONFIDENCE response_text"
  then show "parse_ai_response rt response_text target_date sleep_data readiness_data activity_data =
        Inr \<lparr>date = target_date, recommendation_type = pystr ''moderate_activity'',
             message = [], confidence = float_0_8,
             key_factors = generate_key_factors rt sleep_data readiness_data activity_data\<rparr>"
    by (simp add: parse_ai_response_def parse_try_def extract_rec_type_def
        extract_key_factors_def extract_message_def extract_specific_tips_def
        extract_confidence_def combine_message_def bind_err_def)
qed

lemma sample_factors:
  "generate_key_factors rt sample_sleep sample_readiness sample_activity =
     map pystr [''Excellent sleep quality (90/100)'', ''Low readiness score (45/100)'',
                ''Low activity yesterday (3000 steps)'']"
  by (simp add: generate_key_factors_def sleep_factor_def readiness_factor_def temperature_factor_def hrv_factor_def steps_factor_def sample_sleep_def sample_readiness_def sample_activity_def truthy_float_def truthy_int_def str_int_def digits.simps pystr_def)

lemma unparseable_reply_no_markers:
  "\<not> sublist RECOMMENDATION_TYPE unparseable_reply" "\<not> sublist KEY_FACTORS unparseable_reply"
    "\<not> sublist MESSAGE unparseable_reply" "\<not> sublist SPECIFIC_TIPS unparseable_reply"
    "\<not> sublist CONFIDENCE unparseable_reply"
  by code_simp+

theorem parse_ai_response_defaults_witness:
  "\<not> sublist RECOMMENDATION_TYPE unparseable_reply \<and> \<not> sublist KEY_FACTORS unparseable_reply \<and>
   \<not> sublist MESSAGE unparseable_reply \<and> \<not> sublist SPECIFIC_TIPS unparseable_reply \<and>
   \<not> sublist CONFIDENCE unparseable_reply \<and>
   parse_ai_response sample_runtime unparseable_reply (Date 2024 1 15) sample_sleep
       sample_readiness sample_activity =
     Inr \<lparr>date = Date 2024 1 15, recommendation_type = pystr ''moderate_activity'',
          message = [], confidence = float_0_8,
          key_factors = map pystr [''Excellent sleep quality (90/100)'',
            ''Low readiness score (45/100)'', ''Low activity yesterday (3000 steps)'']\<rparr>"
  using parse_ai_response_defaults [of sample_runtime unparseable_reply "Date 2024 1 15"
      sample_sleep sample_readiness sample_activity]
    unparseable_reply_no_markers
  by (simp add: sample_factors)

text \<open>
  C1 as stated fails: for the empty reply and a readiness score of 45 the parser returns
  \<open>moderate_activity\<close> with confidence 0.8, where the readiness table gives
  \<open>light_recovery\<close> and the claim a confidence of 0.7.
\<close>

theorem parse_ai_response_empty_reply:
  "parse_ai_response sample_runtime [] (Date 2024 1 15) sample_sleep sample_readiness
       sample_activity =
     Inr \<lparr>date = Date 2024 1 15, recommendation_type = pystr ''moderate_activity'',
          message = [], confidence = float_0_8,
          key_factors = map pystr [''Excellent sleep quality (90/100)'',
            ''Low readiness score (45/100)'', ''Low activity yesterday (3000 steps)'']\<rparr> \<and>
   determine_recommendation_type sample_readiness = pystr ''light_recovery'' \<and>
   pystr ''moderate_activity'' \<noteq> pystr ''light_recovery'' \<and>
   float_0_8 \<noteq> float_0_7"
proof -
  have "[] \<noteq> pystr ''RECOMMENDATION_TYPE:''" "[] \<noteq> pystr ''KEY_FACTORS:''"
    "[] \<noteq> pystr ''MESSAGE:''" "[] \<noteq> pystr ''SPECIFIC_TIPS:''" "[] \<noteq> pystr ''CONFIDENCE:''"
    by (simp_all add: pystr_def)
  then have "parse_ai_response sample_runtime [] (Date 2024 1 15) sample_sleep sample_readiness
       sample_activity =
     Inr \<lparr>date = Date 2024 1 15, recommendation_type = pystr ''moderate_activity'',
          message = [], confidence = float_0_8,
          key_factors = map pystr [''Excellent sleep quality (90/100)'',
            ''Low readiness score (45/100)'', ''Low activity yesterday (3000 steps)'']\<rparr>"
    by (simp add: parse_ai_response_def parse_try_def extract_rec_type_def
        extract_key_factors_def extract_message_def extract_specific_tips_def
        extract_confidence_def combine_message_def bind_err_def sample_factors
        RECOMMENDATION_TYPE_def KEY_FACTORS_def MESSAGE_def SPECIFIC_TIPS_def CONFIDENCE_def)
  moreover have "determine_recommendation_type sample_readiness = pystr ''light_recovery''"
    by (simp add: determine_recommendation_type_def sample_readiness_def)
  moreover have "pystr ''moderate_activity'' \<noteq> pystr ''light_recovery''"
    by (simp add: pystr_def)
  moreover have "float_0_8 \<noteq> float_0_7"
    by (simp add: float_0_8_def float_0_7_def)
  ultimately show ?thesis by blast
qed

section \<open>The two loops over the lines\<close>

lemma key_factors_loop_collecting:
  "key_factors_loop True factors lines =
     factors @ map bullet_text
       (filter (\<lambda>l. dash_line l \<and> \<not> sublist KEY_FACTORS l)
          (takeWhile (\<lambda>l. \<not> key_factors_stop l) lines))"
  by (induction lines arbitrary: factors) (auto simp: key_factors_stop_def)

lemma key_factors_loop_scanning:
  "key_factors_loop False factors lines =
     key_factors_loop True factors (after_marker_line KEY_FACTORS lines)"
  by (induction lines arbitrary: factors) (auto simp: after_marker_line_def)

lemma tips_loop_collecting:
  "tips_loop True tips lines =
     tips @ map bullet_text
       (filter (\<lambda>l. dash_line l \<and> \<not> sublist SPECIFIC_TIPS l)
          (takeWhile (\<lambda>l. \<not> tips_stop l) lines))"
  by (induction lines arbitrary: tips) (auto simp: tips_stop_def)

lemma tips_loop_scanning:
  "tips_loop False tips lines = tips_loop True tips (after_marker_line SPECIFIC_TIPS lines)"
  by (induction lines arbitrary: tips) (auto simp: after_marker_line_def)

lemma after_marker_line_none:
  "\<not> sublist marker s \<Longrightarrow> after_marker_line marker (split_on c s) = []"
proof -
  assume "\<not> sublist marker s"
  then have "\<forall>l \<in> set (split_on c s). \<not> sublist marker l"
    by (auto dest: line_sublist intro: sublist_order.order_trans)
  then have "dropWhile (\<lambda>l. \<not> sublist marker l) (split_on c s) = []"
    by (simp only: dropWhile_eq_Nil_conv)
  then show ?thesis by (simp only: after_marker_line_def list.sel)
qed

text \<open>
  C7 (as the code has it). For every reply text, the key factors are the texts of the dash
  lines after the first line with \<open>KEY_FACTORS:\<close>, up to the first line that is neither
  blank nor a dash line nor another line with that marker; a line that holds the marker is
  skipped and never collected. The tips are the texts of the dash lines after the first line
  with \<open>SPECIFIC_TIPS:\<close>, up to the first line with \<open>CONFIDENCE:\<close> that is not a
  dash line: a line that is neither blank nor a dash line does not end the tips.
\<close>

theorem bulleted_sections:
  "extract_key_factors response_text =
     collected_bullets KEY_FACTORS key_factors_stop (split_on NL response_text) \<and>
   extract_specific_tips response_text =
     collected_bullets SPECIFIC_TIPS tips_stop (split_on NL response_text)"
  by (simp add: extract_key_factors_def extract_specific_tips_def collected_bullets_def
      key_factors_loop_scanning key_factors_loop_collecting tips_loop_scanning
      tips_loop_collecting after_marker_line_none)

text \<open>The rules that evaluate the string functions on a given text.\<close>

lemmas eval_simps = sublist_Cons_right prefix_Cons dash_line_def bullet_text_def strip_def
  strip_chars_def strip_by_def isspace_def pystr_def text_of_lines_def NL_def
  RECOMMENDATION_TYPE_def KEY_FACTORS_def MESSAGE_def SPECIFIC_TIPS_def CONFIDENCE_def

text \<open>
  C7 as stated fails: the tips run past a line that is neither blank nor a dash line, and
  the key factors run past a second line with their marker.
\<close>

theorem bulleted_sections_counterexample:
  "extract_specific_tips interrupted_tips_reply = map pystr [''Hydrate'', ''Stretch''] \<and>
   claimed_bullets SPECIFIC_TIPS (split_on NL interrupted_tips_reply) = map pystr [''Hydrate''] \<and>
   extract_key_factors repeated_factors_reply = map pystr [''Low HRV'', ''Good sleep''] \<and>
   claimed_bullets KEY_FACTORS (split_on NL repeated_factors_reply) = map pystr [''Low HRV'']"
  by (simp add: extract_specific_tips_def extract_key_factors_def claimed_bullets_def
      after_marker_line_def interrupted_tips_reply_def repeated_factors_reply_def eval_simps)

theorem bulleted_sections_witness:
  "extract_key_factors repeated_factors_reply = map pystr [''Low HRV'', ''Good sleep''] \<and>
   extract_specific_tips interrupted_tips_reply = map pystr [''Hydrate'', ''Stretch'']"
proof -
  have "collected_bullets KEY_FACTORS key_factors_stop (split_on NL repeated_factors_reply) =
      map pystr [''Low HRV'', ''Good sleep'']"
    by (simp add: collected_bullets_def key_factors_stop_def after_marker_line_def
        repeated_factors_reply_def eval_simps)
  moreover have "collected_bullets SPECIFIC_TIPS tips_stop (split_on NL interrupted_tips_reply) =
      map pystr [''Hydrate'', ''Stretch'']"
    by (simp add: collected_bullets_def tips_stop_def after_marker_line_def
        interrupted_tips_reply_def eval_simps)
  ultimately show ?thesis
    using bulleted_sections [of repeated_factors_reply] bulleted_sections [of interrupted_tips_reply]
    by simp
qed

section \<open>The message section\<close>

text \<open>\<open>find\<close> returns the place of the first occurrence at or after its start, and
  \<open>-1\<close> exactly when there is none.\<close>

lemma prefix_of_longer:
  "prefix s (a @ b) \<Longrightarrow> length s \<le> length a \<Longrightarrow> prefix s a"
  by (auto simp: prefix_append)

lemma find_at_first:
  assumes "sub \<noteq> []" "\<not> sublist sub (pre @ butlast sub)"
  shows "find_at sub (pre @ sub @ post) i = int (i + length pre)"
  using assms(2)
proof (induction pre arbitrary: i)
  case Nil
  obtain a l where eq: "sub @ post = a # l"
    using assms(1) by (cases "sub @ post") auto
  have "prefix sub (sub @ post)"
    by simp
  then have "find_at sub (a # l) i = int i"
    unfolding eq by simp
  then show ?case
    by (simp add: eq)
next
  case (Cons x p)
  have "\<not> prefix sub (x # p @ sub @ post)"
  proof
    assume pre: "prefix sub (x # p @ sub @ post)"
    have eq: "x # p @ sub @ post = ((x # p) @ butlast sub) @ (last sub # post)"
      using assms(1) by simp
    have "length sub \<le> length ((x # p) @ butlast sub)"
      by simp
    with pre have "prefix sub ((x # p) @ butlast sub)"
      unfolding eq by (rule prefix_of_longer)
    then have "sublist sub ((x # p) @ butlast sub)"
      by (rule prefix_imp_sublist)
    with Cons.prems show False by simp
  qed
  moreover have "\<not> sublist sub (p @ butlast sub)"
    using Cons.prems by (simp add: sublist_Cons_right)
  ultimately show ?case
    using Cons.IH [of "Suc i"] by simp
qed

lemma find_at_none: "\<not> sublist sub s \<Longrightarrow> find_at sub s i = - 1"
  by (induction s arbitrary: i) (auto simp: sublist_Cons_right)

lemma find_first:
  assumes "sub \<noteq> []" "\<not> sublist sub (pre @ butlast sub)"
  shows "find (skipped @ pre @ sub @ post) sub (int (length skipped)) =
           int (length skipped + length pre)"
  using find_at_first [OF assms, of post "length skipped"]
  by (simp add: find_def)

lemma find_none:
  assumes "\<not> sublist sub rest"
  shows "find (skipped @ rest) sub (int (length skipped)) = - 1"
  using find_at_none [OF assms, of "length skipped"]
  by (simp add: find_def)

lemma slice_middle:
  "slice (skipped @ body @ rest) (int (length skipped)) (int (length skipped + length body)) = body"
  by (simp add: slice_def slice_index_def Let_def)

lemma extract_message_between:
  assumes first: "\<not> sublist MESSAGE (pre @ butlast MESSAGE)"
    and e: "find (pre @ MESSAGE @ body @ rest) SPECIFIC_TIPS (int (length (pre @ MESSAGE))) = - 1
            \<and> find (pre @ MESSAGE @ body @ rest) CONFIDENCE (int (length (pre @ MESSAGE))) =
                int (length (pre @ MESSAGE) + length body)
          \<or> find (pre @ MESSAGE @ body @ rest) SPECIFIC_TIPS (int (length (pre @ MESSAGE))) =
                int (length (pre @ MESSAGE) + length body)"
  shows "extract_message (pre @ MESSAGE @ body @ rest) = strip body"
proof -
  let ?text = "pre @ MESSAGE @ body @ rest"
  have ne: "MESSAGE \<noteq> []"
    by (simp add: MESSAGE_def pystr_def)
  have inside: "sublist MESSAGE ?text"
    by (metis sublist_appendI)
  have start: "find ?text MESSAGE 0 + int (length MESSAGE) = int (length (pre @ MESSAGE))"
    using find_first [OF ne first, of "[]" "body @ rest"] by simp
  have sl: "slice ?text (int (length (pre @ MESSAGE)))
              (int (length (pre @ MESSAGE) + length body)) = body"
    using slice_middle [of "pre @ MESSAGE" body rest] by simp
  from e show ?thesis
  proof
    assume a: "find ?text SPECIFIC_TIPS (int (length (pre @ MESSAGE))) = - 1
            \<and> find ?text CONFIDENCE (int (length (pre @ MESSAGE))) =
                int (length (pre @ MESSAGE) + length body)"
    show ?thesis
      unfolding extract_message_def Let_def start
      using inside a sl by simp
  next
    assume a: "find ?text SPECIFIC_TIPS (int (length (pre @ MESSAGE))) =
                int (length (pre @ MESSAGE) + length body)"
    show ?thesis
      unfolding extract_message_def Let_def start
      using inside a sl by simp
  qed
qed

text \<open>
  C8 (as the code has it). For every reply text in which a \<open>SPECIFIC_TIPS:\<close> or a
  \<open>CONFIDENCE:\<close> marker follows the first \<open>MESSAGE:\<close> marker: when a
  \<open>SPECIFIC_TIPS:\<close> follows, the extracted message is the text after the first
  \<open>MESSAGE:\<close> up to the first \<open>SPECIFIC_TIPS:\<close> that follows it, with leading and
  trailing whitespace removed; when no \<open>SPECIFIC_TIPS:\<close> follows but a
  \<open>CONFIDENCE:\<close> does, it is the text up to the first \<open>CONFIDENCE:\<close> that follows,
  trimmed alike. Replies in which neither marker follows are not covered here.
\<close>

theorem extract_message_section:
  "(\<not> sublist MESSAGE (pre @ butlast MESSAGE) \<and>
    \<not> sublist SPECIFIC_TIPS (body @ butlast SPECIFIC_TIPS) \<longrightarrow>
      extract_message (pre @ MESSAGE @ body @ SPECIFIC_TIPS @ post) = strip body) \<and>
   (\<not> sublist MESSAGE (pre @ butlast MESSAGE) \<and>
    \<not> sublist SPECIFIC_TIPS (body @ CONFIDENCE @ post) \<and>
    \<not> sublist CONFIDENCE (body @ butlast CONFIDENCE) \<longrightarrow>
      extract_message (pre @ MESSAGE @ body @ CONFIDENCE @ post) = strip body)"
proof (intro conjI impI)
  assume a: "\<not> sublist MESSAGE (pre @ butlast MESSAGE) \<and>
    \<not> sublist SPECIFIC_TIPS (body @ butlast SPECIFIC_TIPS)"
  have ne: "SPECIFIC_TIPS \<noteq> []"
    by (simp add: SPECIFIC_TIPS_def pystr_def)
  have "find ((pre @ MESSAGE) @ body @ SPECIFIC_TIPS @ post) SPECIFIC_TIPS
          (int (length (pre @ MESSAGE))) = int (length (pre @ MESSAGE) + length body)"
    using a by (intro find_first [OF ne]) simp
  then show "extract_message (pre @ MESSAGE @ body @ SPECIFIC_TIPS @ post) = strip body"
    using a by (intro extract_message_between) simp_all
next
  assume a: "\<not> sublist MESSAGE (pre @ butlast MESSAGE) \<and>
    \<not> sublist SPECIFIC_TIPS (body @ CONFIDENCE @ post) \<and>
    \<not> sublist CONFIDENCE (body @ butlast CONFIDENCE)"
  have ne: "CONFIDENCE \<noteq> []"
    by (simp add: CONFIDENCE_def pystr_def)
  have "find ((pre @ MESSAGE) @ body @ CONFIDENCE @ post) CONFIDENCE
          (int (length (pre @ MESSAGE))) = int (length (pre @ MESSAGE) + length body)"
    using a by (intro find_first [OF ne]) simp
  moreover have "find ((pre @ MESSAGE) @ body @ CONFIDENCE @ post) SPECIFIC_TIPS
          (int (length (pre @ MESSAGE))) = - 1"
    using a by (intro find_none) simp
  ultimately show "extract_message (pre @ MESSAGE @ body @ CONFIDENCE @ post) = strip body"
    using a by (intro extract_message_between) simp_all
qed

theorem extract_message_section_witness:
  "\<not> sublist MESSAGE ([] @ butlast MESSAGE) \<and>
   \<not> sublist SPECIFIC_TIPS ((pystr '' Walk.'' @ [NL]) @ butlast SPECIFIC_TIPS) \<and>
   extract_message ([] @ MESSAGE @ (pystr '' Walk.'' @ [NL]) @ SPECIFIC_TIPS @ (NL # pystr ''- Hydrate'')) =
     pystr ''Walk.'' \<and>
   \<not> sublist SPECIFIC_TIPS ((pystr '' Rest.'' @ [NL]) @ CONFIDENCE @ pystr '' 0.5'') \<and>
   \<not> sublist CONFIDENCE ((pystr '' Rest.'' @ [NL]) @ butlast CONFIDENCE) \<and>
   extract_message ([] @ MESSAGE @ (pystr '' Rest.'' @ [NL]) @ CONFIDENCE @ pystr '' 0.5'') =
     pystr ''Rest.''"
proof -
  have h: "\<not> sublist MESSAGE ([] @ butlast MESSAGE)"
    "\<not> sublist SPECIFIC_TIPS ((pystr '' Walk.'' @ [NL]) @ butlast SPECIFIC_TIPS)"
    "\<not> sublist SPECIFIC_TIPS ((pystr '' Rest.'' @ [NL]) @ CONFIDENCE @ pystr '' 0.5'')"
    "\<not> sublist CONFIDENCE ((pystr '' Rest.'' @ [NL]) @ butlast CONFIDENCE)"
    by (simp_all add: eval_simps)
  have s: "strip (pystr '' Walk.'' @ [NL]) = pystr ''Walk.''"
    "strip (pystr '' Rest.'' @ [NL]) = pystr ''Rest.''"
    by (simp_all add: eval_simps)
  from h s show ?thesis
    using extract_message_section [of "[]" "pystr '' Walk.'' @ [NL]" "NL # pystr ''- Hydrate''"]
      extract_message_section [of "[]" "pystr '' Rest.'' @ [NL]" "pystr '' 0.5''"]
    by metis
qed

text \<open>When neither marker follows, the end of the slice is the \<open>-1\<close> that \<open>find\<close>
  returned, and the message loses the last character of the text.\<close>

lemma slice_to_minus_one:
  "slice (skipped @ rest) (int (length skipped)) (- 1) = butlast rest"
proof -
  let ?n = "length (skipped @ rest)"
  have lo: "slice_index ?n (int (length skipped)) = length skipped"
    by (simp add: slice_index_def)
  have hi: "slice_index ?n (- 1) - length skipped = length rest - 1"
    by (cases rest) (auto simp: slice_index_def max_def nat_add_distrib)
  show ?thesis
    unfolding slice_def Let_def lo hi by (simp add: butlast_conv_take)
qed

lemma extract_message_without_end_marker:
  assumes "\<not> sublist MESSAGE (pre @ butlast MESSAGE)" "\<not> sublist SPECIFIC_TIPS rest"
    "\<not> sublist CONFIDENCE rest"
  shows "extract_message (pre @ MESSAGE @ rest) = strip (butlast rest)"
proof -
  let ?text = "pre @ MESSAGE @ rest"
  have ne: "MESSAGE \<noteq> []"
    by (simp add: MESSAGE_def pystr_def)
  have inside: "sublist MESSAGE ?text"
    by (metis sublist_appendI)
  have start: "find ?text MESSAGE 0 + int (length MESSAGE) = int (length (pre @ MESSAGE))"
    using find_first [OF ne assms(1), of "[]" rest] by simp
  have t: "find ?text SPECIFIC_TIPS (int (length (pre @ MESSAGE))) = - 1"
    using find_none [OF assms(2), of "pre @ MESSAGE"] by simp
  have c: "find ?text CONFIDENCE (int (length (pre @ MESSAGE))) = - 1"
    using find_none [OF assms(3), of "pre @ MESSAGE"] by simp
  have "slice ?text (int (length (pre @ MESSAGE))) (- 1) = butlast rest"
    using slice_to_minus_one [of "pre @ MESSAGE" rest] by simp
  then show ?thesis
    unfolding extract_message_def Let_def start
    using inside t c by simp
qed

lemma message_at:
  assumes "sublist MESSAGE t" "find t MESSAGE 0 + int (length MESSAGE) = a"
    "find t SPECIFIC_TIPS a = b" "find t CONFIDENCE a = c"
  shows "extract_message t = strip (slice t a (if b = - 1 then c else b))"
    and "claimed_message t =
           slice t a (if b = - 1 \<and> c = - 1 then int (length t)
                      else if b = - 1 then c else if c = - 1 then b else min b c)"
  using assms by (simp_all add: extract_message_def claimed_message_def Let_def)

lemma confidence_first_reply_finds:
  "sublist MESSAGE confidence_first_reply"
  "find confidence_first_reply MESSAGE 0 + int (length MESSAGE) = 8"
  "find confidence_first_reply SPECIFIC_TIPS 8 = 31"
  "find confidence_first_reply CONFIDENCE 8 = 15"
  by (simp_all add: find_def confidence_first_reply_def eval_simps)

lemma message_tips_reply_finds:
  "sublist MESSAGE message_tips_reply"
  "find message_tips_reply MESSAGE 0 + int (length MESSAGE) = 8"
  "find message_tips_reply SPECIFIC_TIPS 8 = 15"
  "find message_tips_reply CONFIDENCE 8 = - 1"
  by (simp_all add: find_def message_tips_reply_def eval_simps)

text \<open>
  C8 as stated fails: a \<open>CONFIDENCE:\<close> before the \<open>SPECIFIC_TIPS:\<close> does not end the
  message, and the message is trimmed, not raw.
\<close>

theorem extract_message_counterexample:
  "extract_message confidence_first_reply = pystr ''Rest.'' @ [NL] @ pystr ''CONFIDENCE: 0.5'' \<and>
   claimed_message confidence_first_reply = pystr '' Rest.'' @ [NL] \<and>
   extract_message message_tips_reply = pystr ''Walk.'' \<and>
   claimed_message message_tips_reply = pystr '' Walk.'' @ [NL]"
proof -
  have "strip (slice confidence_first_reply 8 31) =
      pystr ''Rest.'' @ [NL] @ pystr ''CONFIDENCE: 0.5''"
    "slice confidence_first_reply 8 15 = pystr '' Rest.'' @ [NL]"
    by (simp_all add: slice_def slice_index_def confidence_first_reply_def eval_simps)
  moreover have "strip (slice message_tips_reply 8 15) = pystr ''Walk.''"
    "slice message_tips_reply 8 15 = pystr '' Walk.'' @ [NL]"
    by (simp_all add: slice_def slice_index_def message_tips_reply_def eval_simps)
  ultimately show ?thesis
    by (simp add: message_at [OF confidence_first_reply_finds]
        message_at [OF message_tips_reply_finds])
qed

lemma extract_message_loses_last_character:
  "extract_message (pystr ''MESSAGE: Rest'') = pystr ''Res''"
proof -
  have "sublist MESSAGE (pystr ''MESSAGE: Rest'')"
    "find (pystr ''MESSAGE: Rest'') MESSAGE 0 + int (length MESSAGE) = 8"
    "find (pystr ''MESSAGE: Rest'') SPECIFIC_TIPS 8 = - 1"
    "find (pystr ''MESSAGE: Rest'') CONFIDENCE 8 = - 1"
    by (simp_all add: find_def eval_simps)
  from message_at(1) [OF this]
  have "extract_message (pystr ''MESSAGE: Rest'') = strip (slice (pystr ''MESSAGE: Rest'') 8 (- 1))"
    by simp
  also have "\<dots> = pystr ''Res''"
    by (simp add: slice_def slice_index_def eval_simps)
  finally show ?thesis .
qed

section \<open>The synthesized key factors\<close>

text \<open>The five rules contribute in the order of the source, each at most one factor, so the
  cut to five never removes one. The temperature rule fires exactly for a deviation that is
  present and beyond 0.5 in absolute value; the HRV rule tests the truth value of the
  balance, so it fires exactly for a balance that is present, not 0 and below 60.\<close>

lemma generate_key_factors_length:
  "length (generate_key_factors rt sleep_data readiness_data activity_data) \<le> 5"
  by (simp add: generate_key_factors_def)

lemma generate_key_factors_order:
  "generate_key_factors rt sleep_data readiness_data activity_data =
     sleep_factor sleep_data @ readiness_factor readiness_data @
     temperature_factor rt readiness_data @ hrv_factor readiness_data @
     steps_factor activity_data"
  by (simp add: generate_key_factors_def sleep_factor_def readiness_factor_def
      temperature_factor_def hrv_factor_def steps_factor_def)

lemma temperature_factor_fires:
  "temperature_factor rt readiness_data \<noteq> [] \<longleftrightarrow>
     (\<exists>t. temperature_deviation readiness_data = Some t \<and> float_gt (float_abs t) float_0_5)"
proof (cases "temperature_deviation readiness_data")
  case None
  then show ?thesis
    by (simp add: temperature_factor_def truthy_float_def)
next
  case (Some t)
  have "float_gt (float_abs t) float_0_5 \<Longrightarrow> float_truthy t"
    by (cases t) (auto simp: float_truthy_def is_zero_def float_0_5_def)
  then show ?thesis
    using Some by (auto simp: temperature_factor_def truthy_float_def)
qed

lemma hrv_factor_fires:
  "hrv_factor readiness_data \<noteq> [] \<longleftrightarrow>
     (\<exists>h. hrv_balance readiness_data = Some h \<and> h \<noteq> 0 \<and> h < 60)"
  by (cases "hrv_balance readiness_data") (auto simp: hrv_factor_def truthy_int_def)

text \<open>
  C5. Factor synthesis evaluates its rules in the order sleep score, readiness score,
  temperature deviation, HRV balance, steps and returns at most 5 factors, and the scenario
  \<open>sleep_score = 90\<close>, \<open>readiness_score = 45\<close>, \<open>steps = 3000\<close> gives the three
  factors of the claim. The HRV rule is claimed to fire iff \<open>hrv_balance\<close> is present and
  below 60: the code misses the balance 0, which is present and below 60 and yet reported
  by no factor.
\<close>

theorem hrv_balance_zero_not_reported:
  "hrv_balance zero_hrv_readiness = Some 0 \<and>
   hrv_factor zero_hrv_readiness = [] \<and>
   generate_key_factors sample_runtime sample_sleep zero_hrv_readiness sample_activity =
     map pystr [''Excellent sleep quality (90/100)'', ''Low readiness score (45/100)'',
                ''Low activity yesterday (3000 steps)'']"
  by (simp add: generate_key_factors_def sleep_factor_def readiness_factor_def
      temperature_factor_def hrv_factor_def steps_factor_def sample_sleep_def
      zero_hrv_readiness_def sample_readiness_def sample_activity_def truthy_float_def
      truthy_int_def str_int_def digits.simps pystr_def)

section \<open>The key factors of the returned recommendation\<close>

text \<open>
  C6 (as the code has it). A recommendation the parser returns carries the synthesized
  factors, at most 5 of them, when no key factor was extracted from the reply; otherwise it
  carries every extracted key factor, one for each collected dash line, without a cap.
\<close>

theorem key_factors_of_parse:
  assumes "parse_ai_response rt response_text target_date sleep_data readiness_data
             activity_data = Inr recommendation"
  shows "(extract_key_factors response_text = [] \<longrightarrow>
            key_factors recommendation =
              generate_key_factors rt sleep_data readiness_data activity_data \<and>
            length (key_factors recommendation) \<le> 5) \<and>
         (extract_key_factors response_text \<noteq> [] \<longrightarrow>
            key_factors recommendation = extract_key_factors response_text)"
proof -
  obtain v where v: "extract_rec_type response_text = Inr v"
    using extract_rec_type_total by blast
  obtain x where x: "extract_confidence rt response_text = Inr x"
    using extract_confidence_total by blast
  have "key_factors recommendation =
      (if extract_key_factors response_text = []
       then generate_key_factors rt sleep_data readiness_data activity_data
       else extract_key_factors response_text)"
    using assms
    by (auto simp: parse_ai_response_def parse_try_def v x bind_err_def Let_def)
  then show ?thesis
    by (simp add: generate_key_factors_length)
qed

lemma six_factor_reply_factors:
  "extract_key_factors six_factor_reply = map pystr [''a'', ''b'', ''c'', ''d'', ''e'', ''f'']"
  by (simp add: extract_key_factors_def six_factor_reply_def eval_simps)

lemma six_factor_reply_parse:
  "parse_ai_response sample_runtime six_factor_reply (Date 2024 1 15) sample_sleep
       sample_readiness sample_activity =
     Inr \<lparr>date = Date 2024 1 15, recommendation_type = pystr ''moderate_activity'',
          message = [], confidence = float_0_8,
          key_factors = map pystr [''a'', ''b'', ''c'', ''d'', ''e'', ''f'']\<rparr>"
proof -
  have "\<not> sublist RECOMMENDATION_TYPE six_factor_reply" "\<not> sublist MESSAGE six_factor_reply"
    "\<not> sublist SPECIFIC_TIPS six_factor_reply" "\<not> sublist CONFIDENCE six_factor_reply"
    by (simp_all add: six_factor_reply_def eval_simps)
  then show ?thesis
    by (simp add: parse_ai_response_def parse_try_def extract_rec_type_def
        extract_message_def extract_specific_tips_def extract_confidence_def
        combine_message_def bind_err_def six_factor_reply_factors)
qed

text \<open>
  C6 as stated fails: from a reply with six dash lines under \<open>KEY_FACTORS:\<close> the parser
  returns six key factors.
\<close>

theorem six_extracted_key_factors:
  "parse_ai_response sample_runtime six_factor_reply (Date 2024 1 15) sample_sleep
       sample_readiness sample_activity =
     Inr \<lparr>date = Date 2024 1 15, recommendation_type = pystr ''moderate_activity'',
          message = [], confidence = float_0_8,
          key_factors = map pystr [''a'', ''b'', ''c'', ''d'', ''e'', ''f'']\<rparr> \<and>
   length (map pystr [''a'', ''b'', ''c'', ''d'', ''e'', ''f'']) = 6"
  using six_factor_reply_parse by simp

lemma unparseable_reply_parse:
  "parse_ai_response sample_runtime unparseable_reply (Date 2024 1 15) sample_sleep
       sample_readiness sample_activity =
     Inr \<lparr>date = Date 2024 1 15, recommendation_type = pystr ''moderate_activity'',
          message = [], confidence = float_0_8,
          key_factors = map pystr [''Excellent sleep quality (90/100)'',
            ''Low readiness score (45/100)'', ''Low activity yesterday (3000 steps)'']\<rparr>"
  using unparseable_reply_no_markers
  by (simp add: parse_ai_response_def parse_try_def extract_rec_type_def
      extract_key_factors_def extract_message_def extract_specific_tips_def
      extract_confidence_def combine_message_def bind_err_def sample_factors)

theorem key_factors_of_parse_witness:
  "extract_key_factors unparseable_reply = [] \<and>
   length (map pystr [''Excellent sleep quality (90/100)'', ''Low readiness score (45/100)'',
                      ''Low activity yesterday (3000 steps)'']) \<le> 5 \<and>
   extract_key_factors six_factor_reply \<noteq> [] \<and>
   map pystr [''a'', ''b'', ''c'', ''d'', ''e'', ''f''] = extract_key_factors six_factor_reply"
proof -
  have none: "extract_key_factors unparseable_reply = []"
    using unparseable_reply_no_markers(2) by (simp add: extract_key_factors_def)
  have some: "extract_key_factors six_factor_reply \<noteq> []"
    by (simp add: six_factor_reply_factors)
  show ?thesis
    using key_factors_of_parse [OF unparseable_reply_parse]
      key_factors_of_parse [OF six_factor_reply_parse] none some
    by (simp add: generate_key_factors_length)
qed

section \<open>The prompt and a total sleep duration of zero\<close>





lemma sample_hours:
  "int_truediv sample_runtime 5400 3600 = Inr (Finite (3 / 2))"
  "int_truediv sample_runtime 6300 3600 = Inr (Finite (7 / 4))"
  "int_truediv sample_runtime 15300 3600 = Inr (Finite (17 / 4))"
  "int_truediv sample_runtime 27000 3600 = Inr (Finite (15 / 2))"
  by (simp_all add: int_truediv_def sample_runtime_def is_inf_def)



section \<open>Failures of the generative call\<close>

text \<open>For the sample records the prompt is built; the handler of the parser fills its
  recommendation from the readiness table, the reply and the synthesized factors.\<close>

lemma sample_prompt_built:
  "\<exists>prompt. build_analysis_prompt sample_runtime sample_sleep sample_readiness sample_activity =
     Inr prompt"
  by (simp add: build_analysis_prompt_def sample_sleep_def sample_hours stage_percent_def
      float_truediv_def is_zero_def bind_err_def)

lemma parse_except_fields:
  "recommendation_type (parse_except rt response_text target_date sleep_data readiness_data
      activity_data) = determine_recommendation_type readiness_data"
  "message (parse_except rt response_text target_date sleep_data readiness_data activity_data) =
     take 500 response_text"
  "confidence (parse_except rt response_text target_date sleep_data readiness_data
      activity_data) = float_0_7"
  "key_factors (parse_except rt response_text target_date sleep_data readiness_data
      activity_data) = generate_key_factors rt sleep_data readiness_data activity_data"
  by (simp_all add: parse_except_def)

text \<open>
  C3 (as the code has it). Once the prompt is built, every failure of the generative call
  is raised as an AICoachError and no recommendation is constructed: an API error with the
  text \<open>Claude API error: ...\<close>, any other exception, an empty content list included,
  with the text \<open>Error generating recommendation: ...\<close>; there is no apology text. A call
  that completes with a first content block returns the recommendation that the \<open>try\<close>
  block of the parser builds from it. The handler of the parser, the only place where a
  recommendation is made from a failure, sets the readiness-table type, the first 500
  characters of the raw reply as the message, the confidence 0.7 and the synthesized
  factors.
\<close>

theorem analyze_recovery_outcomes:
  assumes "build_analysis_prompt rt sleep_data readiness_data activity_data = Inr prompt"
  shows "(create prompt = APIError e \<longrightarrow>
            analyze_recovery rt create sleep_data readiness_data activity_data =
              Inl (AICoachError (pystr ''Claude API error: '' @ e))) \<and>
         (create prompt = OtherError e \<longrightarrow>
            analyze_recovery rt create sleep_data readiness_data activity_data =
              Inl (AICoachError (pystr ''Error generating recommendation: '' @ e))) \<and>
         (create prompt = Completed [] \<longrightarrow>
            analyze_recovery rt create sleep_data readiness_data activity_data =
              Inl (AICoachError
                     (pystr ''Error generating recommendation: list index out of range''))) \<and>
         (create prompt = Completed (reply # others) \<longrightarrow>
            (\<exists>recommendation.
               parse_try rt reply (date sleep_data) sleep_data readiness_data activity_data =
                 Inr recommendation \<and>
               analyze_recovery rt create sleep_data readiness_data activity_data =
                 Inr recommendation)) \<and>
         recommendation_type (parse_except rt response_text target_date sleep_data
            readiness_data activity_data) = determine_recommendation_type readiness_data \<and>
         message (parse_except rt response_text target_date sleep_data readiness_data
            activity_data) = take 500 response_text \<and>
         confidence (parse_except rt response_text target_date sleep_data readiness_data
            activity_data) = float_0_7 \<and>
         key_factors (parse_except rt response_text target_date sleep_data readiness_data
            activity_data) = generate_key_factors rt sleep_data readiness_data activity_data"
proof -
  obtain recommendation where
    "parse_try rt reply (date sleep_data) sleep_data readiness_data activity_data =
       Inr recommendation"
    using parse_try_total by blast
  then show ?thesis
    by (simp add: analyze_recovery_def assms item_def str_error_def parse_ai_response_def
        parse_except_fields pystr_def)
qed

theorem analyze_recovery_outcomes_witness:
  "analyze_recovery sample_runtime (\<lambda>prompt. APIError (pystr ''overloaded'')) sample_sleep
       sample_readiness sample_activity =
     Inl (AICoachError (pystr ''Claude API error: '' @ pystr ''overloaded'')) \<and>
   analyze_recovery sample_runtime (\<lambda>prompt. OtherError (pystr ''timed out'')) sample_sleep
       sample_readiness sample_activity =
     Inl (AICoachError (pystr ''Error generating recommendation: '' @ pystr ''timed out'')) \<and>
   analyze_recovery sample_runtime (\<lambda>prompt. Completed []) sample_sleep sample_readiness
       sample_activity =
     Inl (AICoachError (pystr ''Error generating recommendation: list index out of range'')) \<and>
   (\<exists>recommendation.
      analyze_recovery sample_runtime (\<lambda>prompt. Completed [unparseable_reply]) sample_sleep
          sample_readiness sample_activity =
        Inr recommendation)"
proof -
  obtain prompt where
    p: "build_analysis_prompt sample_runtime sample_sleep sample_readiness sample_activity =
          Inr prompt"
    using sample_prompt_built by blast
  show ?thesis
    using analyze_recovery_outcomes [OF p, where create = "\<lambda>prompt. APIError (pystr ''overloaded'')"
        and e = "pystr ''overloaded''"]
      analyze_recovery_outcomes [OF p, where create = "\<lambda>prompt. OtherError (pystr ''timed out'')"
        and e = "pystr ''timed out''"]
      analyze_recovery_outcomes [OF p, where create = "\<lambda>prompt. Completed []"]
      analyze_recovery_outcomes [OF p, where create = "\<lambda>prompt. Completed [unparseable_reply]"
        and reply = unparseable_reply and others = "[]"]
    by auto
qed

text \<open>
  C3 as stated fails: when the generative call raises, an API error or any other exception,
  \<open>analyze_recovery\<close> raises AICoachError and returns no recommendation.
\<close>

theorem analyze_recovery_call_failure:
  "analyze_recovery sample_runtime (\<lambda>prompt. APIError (pystr ''overloaded'')) sample_sleep
       sample_readiness sample_activity =
     Inl (AICoachError (pystr ''Claude API error: overloaded'')) \<and>
   analyze_recovery sample_runtime (\<lambda>prompt. OtherError (pystr ''timed out'')) sample_sleep
       sample_readiness sample_activity =
     Inl (AICoachError (pystr ''Error generating recommendation: timed out''))"
proof -
  obtain prompt where
    "build_analysis_prompt sample_runtime sample_sleep sample_readiness sample_activity =
       Inr prompt"
    using sample_prompt_built by blast
  then show ?thesis
    by (simp add: analyze_recovery_def pystr_def)
qed

text \<open>The prompt is built before the \<open>try\<close> block, so a fault of the prompt leaves
  \<open>analyze_recovery\<close> as it is.\<close>

lemma analyze_recovery_prompt_fault:
  "build_analysis_prompt rt sleep_data readiness_data activity_data = Inl e \<Longrightarrow>
     analyze_recovery rt create sleep_data readiness_data activity_data = Inl (Uncaught e)"
  by (simp add: analyze_recovery_def)

section \<open>Provider errors at the endpoints\<close>

text \<open>
  C9. When the provider client raises a provider error, the readiness endpoint is claimed to
  answer with status 503, as the sleep endpoint does. For the date \<open>2024-01-15\<close> and a
  client raising OuraAPIError the sleep and activity endpoints answer 503 and the readiness
  endpoint answers 509.
\<close>

theorem readiness_provider_error_status:
  "get_readiness_data (\<lambda>s. Some (Date 2024 1 15))
       (\<lambda>d. RaisedOuraAPIError (pystr ''Rate limit exceeded. Try again later.''))
       (pystr ''2024-01-15'') =
     HTTPException 509 (pystr ''Oura API error: '' @ pystr ''Rate limit exceeded. Try again later.'') \<and>
   get_sleep_data (\<lambda>s. Some (Date 2024 1 15))
       (\<lambda>d. RaisedOuraAPIError (pystr ''Rate limit exceeded. Try again later.''))
       (pystr ''2024-01-15'') =
     HTTPException 503 (pystr ''Oura API error: '' @ pystr ''Rate limit exceeded. Try again later.'') \<and>
   get_activity_data (\<lambda>s. Some (Date 2024 1 15))
       (\<lambda>d. RaisedOuraAPIError (pystr ''Rate limit exceeded. Try again later.''))
       (pystr ''2024-01-15'') =
     HTTPException 503 (pystr ''Oura API error: '' @ pystr ''Rate limit exceeded. Try again later.'')"
  by (simp add: get_readiness_data_def get_sleep_data_def get_activity_data_def)

text \<open>The readiness endpoint answers 509 for every provider error.\<close>

lemma provider_error_statuses:
  "fromisoformat date_str = Some query_date \<Longrightarrow>
   oura_client query_date = RaisedOuraAPIError e \<Longrightarrow>
     get_readiness_data fromisoformat oura_client date_str =
       HTTPException 509 (pystr ''Oura API error: '' @ e)"
  by (simp add: get_readiness_data_def)

section \<open>The readiness threshold table\<close>

text \<open>
  C4. For every readiness record, \<open>_determine_recommendation_type\<close> maps the readiness
  score by the table: at least 85 gives peak_performance, at least 70 training_ready, at
  least 55 moderate_activity, at least 40 light_recovery, anything lower rest_day; the
  boundary scores 39, 40, 54, 55, 69, 70, 84, 85 give rest_day, light_recovery,
  light_recovery, moderate_activity, moderate_activity, training_ready, training_ready,
  peak_performance.
\<close>

theorem determine_recommendation_type_table:
  "(85 \<le> readiness_score r \<longrightarrow> determine_recommendation_type r = pystr ''peak_performance'') \<and>
   (70 \<le> readiness_score r \<and> readiness_score r < 85 \<longrightarrow>
      determine_recommendation_type r = pystr ''training_ready'') \<and>
   (55 \<le> readiness_score r \<and> readiness_score r < 70 \<longrightarrow>
      determine_recommendation_type r = pystr ''moderate_activity'') \<and>
   (40 \<le> readiness_score r \<and> readiness_score r < 55 \<longrightarrow>
      determine_recommendation_type r = pystr ''light_recovery'') \<and>
   (readiness_score r < 40 \<longrightarrow> determine_recommendation_type r = pystr ''rest_day'') \<and>
   map (\<lambda>score. determine_recommendation_type (r\<lparr>readiness_score := score\<rparr>))
       [39, 40, 54, 55, 69, 70, 84, 85] =
     map pystr [''rest_day'', ''light_recovery'', ''light_recovery'', ''moderate_activity'',
                ''moderate_activity'', ''training_ready'', ''training_ready'',
                ''peak_performance'']"
  by (simp add: determine_recommendation_type_def Let_def)

theorem determine_recommendation_type_table_witness:
  "determine_recommendation_type (sample_readiness\<lparr>readiness_score := 90\<rparr>) =
     pystr ''peak_performance'' \<and>
   determine_recommendation_type (sample_readiness\<lparr>readiness_score := 72\<rparr>) =
     pystr ''training_ready'' \<and>
   determine_recommendation_type (sample_readiness\<lparr>readiness_score := 60\<rparr>) =
     pystr ''moderate_activity'' \<and>
   determine_recommendation_type sample_readiness = pystr ''light_recovery'' \<and>
   determine_recommendation_type (sample_readiness\<lparr>readiness_score := 12\<rparr>) =
     pystr ''rest_day''"
  using determine_recommendation_type_table [of "sample_readiness\<lparr>readiness_score := 90\<rparr>"]
        determine_recommendation_type_table [of "sample_readiness\<lparr>readiness_score := 72\<rparr>"]
        determine_recommendation_type_table [of "sample_readiness\<lparr>readiness_score := 60\<rparr>"]
        determine_recommendation_type_table [of "sample_readiness"]
        determine_recommendation_type_table [of "sample_readiness\<lparr>readiness_score := 12\<rparr>"]
  by (simp add: sample_readiness_def)

end
